theory Spec2Isabelle
  imports Main
begin

section \<open>Python values, strings and exceptions\<close>

text \<open>
  A Python \<open>str\<close> is modelled as a \<open>string\<close> whose characters are the code points
  below 256.  In that range the only characters that \<open>int()\<close> accepts as a one-character
  literal are \<open>0\<close> ... \<open>9\<close>.  Python integers are unbounded, hence \<open>int\<close>.
  Every \<open>raise\<close> of the source is a value \<open>Inl\<close> of the exception's class.
\<close>

datatype exn_class =
  IndexError | ValueError | KeyError | AttributeError | HTTPError | ConnectionError | Timeout

text \<open>\<open>s.replace(old, new)\<close> for a one-character \<open>old\<close>.\<close>

definition str_replace :: "char \<Rightarrow> string \<Rightarrow> string \<Rightarrow> string" where
  "str_replace old new s = concat (map (\<lambda>c. if c = old then new else [c]) s)"

text \<open>\<open>int(c)\<close> for a one-character string \<open>c\<close>: \<open>ValueError\<close> unless a decimal digit.\<close>

definition py_int :: "char \<Rightarrow> exn_class + int" where
  "py_int c =
     (let n = (of_char c :: nat)
      in if 48 \<le> n \<and> n \<le> 57 then Inr (int n - 48) else Inl ValueError)"

section \<open>CAS validator\<close>

text \<open>
  The generator expression \<open>int(digit) * weight for digit, weight in zip(...)\<close>:
  the products in order; the first character that is no digit raises.
\<close>

fun weighted_terms :: "(char \<times> int) list \<Rightarrow> exn_class + int list" where
  "weighted_terms [] = Inr []"
| "weighted_terms ((digit, weight) # rest) =
     (case py_int digit of
        Inl e \<Rightarrow> Inl e
      | Inr d \<Rightarrow>
          (case weighted_terms rest of
             Inl e \<Rightarrow> Inl e
           | Inr ts \<Rightarrow> Inr (d * weight # ts)))"

definition validate_cas_number :: "string \<Rightarrow> exn_class + bool" where
  "validate_cas_number cas_number =
     (let digits = str_replace CHR ''-'' [] cas_number
      in if digits = [] then Inl IndexError
         else
           (case py_int (last digits) of
              Inl e \<Rightarrow> Inl e
            | Inr check_digit \<Rightarrow>
                (let digits' = butlast digits
                 in case weighted_terms
                           (zip (rev digits') (map int [1 ..< length digits' + 1])) of
                      Inl e \<Rightarrow> Inl e
                    | Inr ts \<Rightarrow>
                        (let weighted_sum = sum_list ts;
                             calculated_check_digit = weighted_sum mod 10
                         in Inr (calculated_check_digit = check_digit)))))"

subsection \<open>The checksum as the specification words it\<close>

text \<open>
  The digits before the check digit are \<open>d\<^sub>1 \<dots> d\<^sub>n\<close> in their written order; the digit
  nearest the check digit has weight 1, so \<open>d\<^sub>i\<close> (counted from 0 here) has weight
  \<open>n - i\<close>.  \<open>S\<close> is the sum of the products, and the number is valid iff
  \<open>S mod 10\<close> is the check digit.
\<close>

definition is_digit :: "char \<Rightarrow> bool" where
  "is_digit c = (48 \<le> (of_char c :: nat) \<and> (of_char c :: nat) \<le> 57)"

definition digit_value :: "char \<Rightarrow> int" where
  "digit_value c = int (of_char c) - 48"

definition strip_hyphens :: "string \<Rightarrow> string" where
  "strip_hyphens s = filter (\<lambda>c. c \<noteq> CHR ''-'') s"

definition spec_weighted_sum :: "int list \<Rightarrow> int" where
  "spec_weighted_sum ds =
     sum_list (map (\<lambda>i. ds ! i * int (length ds - i)) [0 ..< length ds])"

definition spec_valid :: "string \<Rightarrow> bool" where
  "spec_valid cas =
     (let s = strip_hyphens cas;
          c = digit_value (last s);
          ds = map digit_value (butlast s)
      in spec_weighted_sum ds mod 10 = c)"

section \<open>Tables\<close>

text \<open>
  A cell of a pandas object column holds a \<open>str\<close> or \<open>None\<close>.  A \<open>DataFrame\<close> has its
  column labels and its rows in order; every row carries its index label (an integer,
  \<open>0, 1, 2, \<dots>\<close> for a frame built without an explicit index) and one cell per column.
  Column labels are taken to be distinct.
\<close>

datatype cell = Str string | PyNone

record dataframe =
  columns :: "string list"
  rows :: "(int \<times> cell list) list"

fun index_of :: "'a \<Rightarrow> 'a list \<Rightarrow> nat option" where
  "index_of x [] = None"
| "index_of x (y # ys) =
     (if x = y then Some 0 else map_option Suc (index_of x ys))"

text \<open>\<open>df[column]\<close>: the labelled values of one column, \<open>KeyError\<close> for an unknown label.\<close>

definition getitem :: "dataframe \<Rightarrow> string \<Rightarrow> exn_class + (int \<times> cell) list" where
  "getitem df column =
     (case index_of column (columns df) of
        None \<Rightarrow> Inl KeyError
      | Some j \<Rightarrow> Inr (map (\<lambda>(label, cells). (label, cells ! j)) (rows df)))"

text \<open>\<open>df[column] = values\<close> for values computed from a column of \<open>df\<close> itself.\<close>

definition setitem :: "dataframe \<Rightarrow> string \<Rightarrow> cell list \<Rightarrow> dataframe" where
  "setitem df column vs =
     (case index_of column (columns df) of
        Some j \<Rightarrow>
          df\<lparr>rows := map (\<lambda>((label, cells), v). (label, cells[j := v])) (zip (rows df) vs)\<rparr>
      | None \<Rightarrow>
          df\<lparr>columns := columns df @ [column],
             rows := map (\<lambda>((label, cells), v). (label, cells @ [v])) (zip (rows df) vs)\<rparr>)"

text \<open>\<open>row[NAME]\<close> for a row yielded by \<open>iterrows()\<close>.\<close>

definition row_getitem :: "string list \<Rightarrow> cell list \<Rightarrow> string \<Rightarrow> exn_class + cell" where
  "row_getitem cols cells name =
     (case index_of name cols of
        None \<Rightarrow> Inl KeyError
      | Some j \<Rightarrow> Inr (cells ! j))"

text \<open>\<open>Series.apply(f)\<close> for an \<open>f\<close> that may raise: in row order, the first raise ends it.\<close>

fun series_apply :: "('a \<Rightarrow> exn_class + 'b) \<Rightarrow> (int \<times> 'a) list \<Rightarrow> exn_class + (int \<times> 'b) list" where
  "series_apply f [] = Inr []"
| "series_apply f ((label, x) # rest) =
     (case f x of
        Inl e \<Rightarrow> Inl e
      | Inr y \<Rightarrow>
          (case series_apply f rest of
             Inl e \<Rightarrow> Inl e
           | Inr ys \<Rightarrow> Inr ((label, y) # ys)))"

subsection \<open>The table filter\<close>

text \<open>\<open>validate_cas_number\<close> on a cell: \<open>None\<close> has no \<open>replace\<close>.\<close>

fun validate_cell :: "cell \<Rightarrow> exn_class + bool" where
  "validate_cell (Str s) = validate_cas_number s"
| "validate_cell PyNone = Inl AttributeError"

text \<open>
  The result is the printed lines together with the returned value; falling off the end
  of the function returns \<open>None\<close>.  \<open>DataFrame.empty\<close> holds when an axis has length 0.
\<close>

definition empty_frame :: "dataframe \<Rightarrow> bool" where
  "empty_frame df = (rows df = [] \<or> columns df = [])"

definition find_invalid_cas ::
    "dataframe \<Rightarrow> string \<Rightarrow> exn_class + (string list \<times> dataframe option)" where
  "find_invalid_cas df column =
     (case getitem df column of
        Inl e \<Rightarrow> Inl e
      | Inr series \<Rightarrow>
          (case series_apply validate_cell series of
             Inl e \<Rightarrow> Inl e
           | Inr valid_mask \<Rightarrow>
               (let invalid_cas_df =
                      df\<lparr>rows := map fst (filter (\<lambda>(r, (label, valid)). \<not> valid)
                                                (zip (rows df) valid_mask))\<rparr>
                in if empty_frame invalid_cas_df
                   then Inr ([''All CASRNs are valid''], None)
                   else Inr ([], Some invalid_cas_df))))"

section \<open>Pages and requests\<close>

text \<open>
  A fetched page is given as the tree that \<open>BeautifulSoup(\<dots>, 'html.parser')\<close> builds
  from it: text nodes, and tags with a name, the tokens of the \<open>class\<close> attribute, the
  other attributes and the children.
\<close>

datatype node =
  NavigableString string
| Tag string "string list" "(string \<times> string) list" "node list"

fun contents :: "node \<Rightarrow> node list" where
  "contents (NavigableString s) = []"
| "contents (Tag name classes attrs children) = children"

text \<open>
  \<open>tag.text\<close>: the text nodes below the tag, joined in document order.  The parser
  keeps the strings inside \<open>script\<close>, \<open>style\<close>, \<open>template\<close>, \<open>rt\<close> and \<open>rp\<close> elements
  in string classes of their own, and the text of a tag that encloses such an element
  leaves them out.
\<close>

definition string_containers :: "string list" where
  "string_containers = [''script'', ''style'', ''template'', ''rt'', ''rp'']"

fun enclosed_text :: "node \<Rightarrow> string" where
  "enclosed_text (NavigableString s) = s"
| "enclosed_text (Tag name classes attrs children) =
     (if name \<in> set string_containers then []
      else concat (map enclosed_text children))"

fun get_text :: "node \<Rightarrow> string" where
  "get_text (NavigableString s) = s"
| "get_text (Tag name classes attrs children) = concat (map enclosed_text children)"

text \<open>\<open>tag.string\<close>: the text of a single text child, looked for through single tag children.\<close>

fun tag_string :: "node \<Rightarrow> string option" where
  "tag_string (NavigableString s) = Some s"
| "tag_string (Tag name classes attrs children) =
     (case children of [child] \<Rightarrow> tag_string child | _ \<Rightarrow> None)"

text \<open>
  \<open>find\<close>: the first tag, in document order, that satisfies the criterion, below the
  given nodes; it is returned with the siblings that follow it.
\<close>

fun find_first :: "(node \<Rightarrow> bool) \<Rightarrow> node list \<Rightarrow> (node \<times> node list) option" where
  "find_first P [] = None"
| "find_first P (NavigableString s # rest) = find_first P rest"
| "find_first P (Tag name classes attrs children # rest) =
     (if P (Tag name classes attrs children)
      then Some (Tag name classes attrs children, rest)
      else (case find_first P children of
              Some found \<Rightarrow> Some found
            | None \<Rightarrow> find_first P rest))"

fun tag_named :: "string \<Rightarrow> node \<Rightarrow> bool" where
  "tag_named n (NavigableString s) = False"
| "tag_named n (Tag name classes attrs children) = (name = n)"

fun has_class :: "string \<Rightarrow> node \<Rightarrow> bool" where
  "has_class c (NavigableString s) = False"
| "has_class c (Tag name classes attrs children) = (c \<in> set classes)"

fun get_attr :: "string \<Rightarrow> node \<Rightarrow> string option" where
  "get_attr a (NavigableString s) = None"
| "get_attr a (Tag name classes attrs children) = map_of attrs a"

text \<open>\<open>find_next_sibling(name)\<close> among the siblings that follow.\<close>

definition find_next_sibling :: "string \<Rightarrow> node list \<Rightarrow> node option" where
  "find_next_sibling n siblings = find (tag_named n) siblings"

text \<open>\<open>s.strip(chars)\<close> and \<open>s.strip()\<close>; the white space below code point 256.\<close>

definition str_strip :: "(char \<Rightarrow> bool) \<Rightarrow> string \<Rightarrow> string" where
  "str_strip P s = rev (dropWhile P (rev (dropWhile P s)))"

definition is_space :: "char \<Rightarrow> bool" where
  "is_space c =
     (let n = (of_char c :: nat)
      in (9 \<le> n \<and> n \<le> 13) \<or> (28 \<le> n \<and> n \<le> 32) \<or> n = 133 \<or> n = 160)"

text \<open>\<open>s.split('/')[-1]\<close>: what follows the last slash.\<close>

definition last_segment :: "string \<Rightarrow> string" where
  "last_segment s = rev (takeWhile (\<lambda>c. c \<noteq> CHR ''/'') (rev s))"

text \<open>
  A response carries the message with which \<open>raise_for_status()\<close> raises (none for a
  status below 400) and the parsed body.  \<open>requests.get\<close> raises or returns a response.
  The network answers a request from its URL and from the number of requests made before
  it; the world records the URLs requested, in order, and the seconds slept.
\<close>

datatype response = Response (http_error: "string option") (soup: "node list")

datatype get_result = Raises exn_class string | Returns response

type_synonym network = "string \<Rightarrow> nat \<Rightarrow> get_result"

record world =
  requested :: "string list"
  slept :: nat

definition requests_get :: "network \<Rightarrow> string \<Rightarrow> world \<Rightarrow> get_result \<times> world" where
  "requests_get net url w =
     (net url (length (requested w)), w\<lparr>requested := requested w @ [url]\<rparr>)"

definition time_sleep :: "nat \<Rightarrow> world \<Rightarrow> world" where
  "time_sleep secs w = w\<lparr>slept := slept w + secs\<rparr>"

text \<open>An f-string field \<open>{x}\<close>.\<close>

fun py_format :: "cell \<Rightarrow> string" where
  "py_format (Str s) = s"
| "py_format PyNone = ''None''"

section \<open>Identifier enrichment\<close>

text \<open>
  A function that talks to the network takes the world and returns it updated.  The
  \<open>finally\<close> clause sleeps on every path out of the \<open>try\<close>.
\<close>

definition extract_hmdb_id :: "network \<Rightarrow> cell \<Rightarrow> world \<Rightarrow> exn_class + (cell \<times> world)" where
  "extract_hmdb_id net CASid w =
     (case CASid of
        PyNone \<Rightarrow> Inl AttributeError
      | Str cas \<Rightarrow>
          (let CASid' = str_strip (\<lambda>c. c = CHR 0x27) cas;
               first_part_url = ''https://hmdb.ca/unearth/q?utf8=%E2%9C%93&query='';
               second_part_url = ''&searcher=metabolites&button='';
               full_url = first_part_url @ ''\"'' @ CASid' @ ''\"'' @ second_part_url;
               (r, w1) = requests_get net full_url w;
               result =
                 (case r of
                    Raises c msg \<Rightarrow> ''Error: '' @ msg
                  | Returns response \<Rightarrow>
                      (case http_error response of
                         Some msg \<Rightarrow> ''Error: '' @ msg
                       | None \<Rightarrow>
                           (case find_first (has_class ''result-link'') (soup response) of
                              None \<Rightarrow> ''HMDB ID not found''
                            | Some (result_link, siblings) \<Rightarrow>
                                (case find_first (tag_named ''a'') (contents result_link) of
                                   None \<Rightarrow> ''HMDB ID not found''
                                 | Some (a, siblings') \<Rightarrow>
                                     (case get_attr ''href'' a of
                                        None \<Rightarrow>
                                          ''Error: 'NoneType' object has no attribute 'split'' @ [CHR 0x27]
                                      | Some href \<Rightarrow> last_segment href)))))
           in Inr (Str result, time_sleep 2 w1)))"

text \<open>\<open>progress_apply\<close> with a function that uses the network: row by row, in order.\<close>

fun apply_in_world ::
    "(cell \<Rightarrow> world \<Rightarrow> exn_class + (cell \<times> world)) \<Rightarrow> (int \<times> cell) list \<Rightarrow> world
      \<Rightarrow> exn_class + (cell list \<times> world)" where
  "apply_in_world f [] w = Inr ([], w)"
| "apply_in_world f ((label, x) # rest) w =
     (case f x w of
        Inl e \<Rightarrow> Inl e
      | Inr (y, w1) \<Rightarrow>
          (case apply_in_world f rest w1 of
             Inl e \<Rightarrow> Inl e
           | Inr (ys, w2) \<Rightarrow> Inr (y # ys, w2)))"

definition add_HMDBid_to_df :: "network \<Rightarrow> dataframe \<Rightarrow> world \<Rightarrow> exn_class + (dataframe \<times> world)" where
  "add_HMDBid_to_df net df w =
     (case getitem df ''casId_final'' of
        Inl e \<Rightarrow> Inl e
      | Inr series \<Rightarrow>
          (case apply_in_world (extract_hmdb_id net) series w of
             Inl e \<Rightarrow> Inl e
           | Inr (ids, w1) \<Rightarrow> Inr (setitem df ''HMDB_id'' ids, w1)))"

definition th_status :: "node \<Rightarrow> bool" where
  "th_status n = (tag_named ''th'' n \<and> tag_string n = Some ''Status'')"

definition fetch_HMDB_status :: "network \<Rightarrow> cell \<Rightarrow> world \<Rightarrow> cell \<times> world" where
  "fetch_HMDB_status net hmdb_id w =
     (let base_url = ''https://hmdb.ca/metabolites/'';
          full_url = base_url @ py_format hmdb_id;
          (r, w1) = requests_get net full_url w;
          result =
            (case r of
               Raises c msg \<Rightarrow> ''Error: '' @ msg
             | Returns response \<Rightarrow>
                 (case http_error response of
                    Some msg \<Rightarrow> ''Error: '' @ msg
                  | None \<Rightarrow>
                      (case find_first th_status (soup response) of
                         None \<Rightarrow>
                           ''Error: 'NoneType' object has no attribute 'find_next_sibling'' @ [CHR 0x27]
                       | Some (th, siblings) \<Rightarrow>
                           (case find_next_sibling ''td'' siblings of
                              Some status_container \<Rightarrow>
                                str_strip is_space (get_text status_container)
                            | None \<Rightarrow> ''Not Found''))))
      in (Str result, time_sleep 2 w1))"

definition check_and_fetch_status :: "network \<Rightarrow> cell \<Rightarrow> world \<Rightarrow> exn_class + (cell \<times> world)" where
  "check_and_fetch_status net hmdb_id w =
     (if hmdb_id \<noteq> Str ''HMDB ID not found''
      then Inr (fetch_HMDB_status net hmdb_id w)
      else Inr (PyNone, w))"

definition add_status_to_df ::
    "network \<Rightarrow> dataframe \<Rightarrow> string \<Rightarrow> world \<Rightarrow> exn_class + (dataframe \<times> world)" where
  "add_status_to_df net df HMDBid_column w =
     (case getitem df HMDBid_column of
        Inl e \<Rightarrow> Inl e
      | Inr series \<Rightarrow>
          (case apply_in_world (check_and_fetch_status net) series w of
             Inl e \<Rightarrow> Inl e
           | Inr (statuses, w1) \<Rightarrow> Inr (setitem df ''HMDB_status'' statuses, w1)))"

section \<open>Literature hit counter\<close>

text \<open>
  An entry of \<open>n_results\<close> is a \<open>str\<close> sentinel or the \<open>contents\<close> of the span found (its
  list of child nodes).  \<open>xs[i] = v\<close> on a Python list counts a negative \<open>i\<close> from the end
  and raises \<open>IndexError\<close> out of range.
\<close>

datatype entry = EStr string | EContents "node list"

definition list_setitem :: "'a list \<Rightarrow> int \<Rightarrow> 'a \<Rightarrow> exn_class + 'a list" where
  "list_setitem xs i v =
     (let n = int (length xs)
      in if 0 \<le> i \<and> i < n then Inr (xs[nat i := v])
         else if - n \<le> i \<and> i < 0 then Inr (xs[nat (i + n) := v])
         else Inl IndexError)"

definition span_value :: "node \<Rightarrow> bool" where
  "span_value n = (tag_named ''span'' n \<and> has_class ''value'' n)"

text \<open>\<open>if search_string:\<close> holds for a string that is neither \<open>None\<close> nor empty.\<close>

definition build_url :: "string \<Rightarrow> string \<Rightarrow> string option \<Rightarrow> string" where
  "build_url search_url name search_string =
     (case search_string of
        None \<Rightarrow> search_url @ ''(\"'' @ name @ ''\")''
      | Some q \<Rightarrow>
          (if q \<noteq> [] then search_url @ ''(\"'' @ name @ ''\")'' @ q
           else search_url @ ''(\"'' @ name @ ''\")''))"

text \<open>
  The body of the loop for a row that is not skipped.  An exception of \<open>requests.get\<close>
  other than a timeout is caught nowhere.  The inner bare \<open>except\<close> catches what the
  inner \<open>try\<close> raises, the \<open>IndexError\<close> of the assignment included; its own assignment
  is guarded by the outer \<open>try\<close> only, which lets \<open>IndexError\<close> through.
\<close>

definition process_row ::
    "network \<Rightarrow> string \<Rightarrow> string list \<Rightarrow> string \<Rightarrow> string option \<Rightarrow> int \<times> cell list
      \<Rightarrow> entry list \<times> world \<Rightarrow> exn_class + (entry list \<times> world)" where
  "process_row net search_url cols NAME search_string r st =
     (case r of (index, row) \<Rightarrow>
      case st of (n_results, w) \<Rightarrow>
      (case row_getitem cols row NAME of
         Inl e \<Rightarrow> Inl e
       | Inr PyNone \<Rightarrow> Inl AttributeError
       | Inr (Str name0) \<Rightarrow>
           (let name = str_replace CHR '' '' ''+'' name0;
                url = build_url search_url name search_string;
                (res, w1) = requests_get net url w
            in case res of
                 Raises c msg \<Rightarrow>
                   (if c = Timeout
                    then (case list_setitem n_results index (EStr ''TIMEOUT'') of
                            Inl e \<Rightarrow> Inl e
                          | Inr ns \<Rightarrow> Inr (ns, w1))
                    else Inl c)
               | Returns response \<Rightarrow>
                   (case (case find_first span_value (soup response) of
                            None \<Rightarrow> Inl AttributeError
                          | Some (span, siblings) \<Rightarrow>
                              list_setitem n_results index (EContents (contents span))) of
                      Inr ns \<Rightarrow> Inr (ns, w1)
                    | Inl e \<Rightarrow>
                        (case list_setitem n_results index (EStr ''NA'') of
                           Inl e' \<Rightarrow> Inl e'
                         | Inr ns \<Rightarrow> Inr (ns, w1))))))"

fun iterrows_loop ::
    "network \<Rightarrow> string \<Rightarrow> string list \<Rightarrow> string \<Rightarrow> string option \<Rightarrow> int
      \<Rightarrow> (int \<times> cell list) list \<Rightarrow> entry list \<times> world \<Rightarrow> exn_class + (entry list \<times> world)" where
  "iterrows_loop net search_url cols NAME search_string resume_from [] st = Inr st"
| "iterrows_loop net search_url cols NAME search_string resume_from (r # rest) st =
     (if fst r < resume_from
      then iterrows_loop net search_url cols NAME search_string resume_from rest st
      else (case process_row net search_url cols NAME search_string r st of
              Inl e \<Rightarrow> Inl e
            | Inr st' \<Rightarrow>
                iterrows_loop net search_url cols NAME search_string resume_from rest st'))"

definition PubMed_results_biomon_terms ::
    "network \<Rightarrow> string \<Rightarrow> dataframe \<Rightarrow> string \<Rightarrow> string option \<Rightarrow> int \<Rightarrow> world
      \<Rightarrow> exn_class + (entry list \<times> world)" where
  "PubMed_results_biomon_terms net search_url df NAME search_string resume_from w =
     iterrows_loop net search_url (columns df) NAME search_string resume_from (rows df)
       (replicate (length (rows df)) (EStr ''NA''), w)"

section \<open>Inputs used in the statements\<close>

text \<open>A cell that holds a well-formed CAS string: digits and hyphens, with a digit.\<close>

fun well_formed_cas :: "cell \<Rightarrow> bool" where
  "well_formed_cas (Str s) = (strip_hyphens s \<noteq> [] \<and> list_all is_digit (strip_hyphens s))"
| "well_formed_cas PyNone = False"

text \<open>The example table of the validator module.\<close>

definition example_df :: dataframe where
  "example_df =
     \<lparr>columns = [''CAS Number'', ''Chemical''],
      rows = [(0, [Str ''7732-18-5'', Str ''Water'']),
              (1, [Str ''80-05-7'', Str ''Bisphenol A'']),
              (2, [Str ''123-45-6'', Str ''Fictional Compound'']),
              (3, [Str ''50-00-0'', Str ''Formaldehyde''])]\<rparr>"

text \<open>The URL that \<open>fetch_HMDB_status\<close> requests for an identifier.\<close>

definition status_url :: "cell \<Rightarrow> string" where
  "status_url hmdb_id = ''https://hmdb.ca/metabolites/'' @ py_format hmdb_id"

definition fresh_world :: world where
  "fresh_world = \<lparr>requested = [], slept = 0\<rparr>"

text \<open>A page with no \<open>Status\<close> header cell, and pages with one.\<close>

definition page_without_status :: "node list" where
  "page_without_status =
     [Tag ''html'' [] []
        [Tag ''body'' [] [] [Tag ''p'' [] [] [NavigableString ''Metabolite not found'']]]]"

definition page_with_status :: "node list" where
  "page_with_status =
     [Tag ''table'' [] []
        [Tag ''tr'' [] []
           [Tag ''th'' [] [] [NavigableString ''Status''],
            Tag ''td'' [] [] [NavigableString '' Detected and Quantified '']]]]"

definition page_status_without_value :: "node list" where
  "page_status_without_value =
     [Tag ''table'' [] [] [Tag ''tr'' [] [] [Tag ''th'' [] [] [NavigableString ''Status'']]]]"

definition serves :: "node list \<Rightarrow> network" where
  "serves page url n = Returns (Response None page)"

text \<open>A table as the identifier step leaves it: an identifier, a miss and an error.\<close>

definition enriched_df :: dataframe where
  "enriched_df =
     \<lparr>columns = [''casId_final'', ''HMDB_id''],
      rows = [(0, [Str ''7732-18-5'', Str ''HMDB0002111'']),
              (1, [Str ''80-05-7'', Str ''HMDB ID not found'']),
              (2, [Str ''1-1-1'', Str ''Error: boom''])]\<rparr>"

text \<open>The URL that \<open>extract_hmdb_id\<close> requests for a CAS number.\<close>

definition hmdb_search_url :: "string \<Rightarrow> string" where
  "hmdb_search_url cas =
     ''https://hmdb.ca/unearth/q?utf8=%E2%9C%93&query='' @ ''\"''
       @ str_strip (\<lambda>c. c = CHR 0x27) cas @ ''\"'' @ ''&searcher=metabolites&button=''"

text \<open>A network on which every request fails to connect.\<close>

definition refuses :: network where
  "refuses url n = Raises ConnectionError ''boom''"

subsection \<open>The hit counter, row by row\<close>

text \<open>
  A frame built without an explicit index labels its rows \<open>0, 1, 2, \<dots>\<close>.
\<close>

definition default_index :: "dataframe \<Rightarrow> bool" where
  "default_index df = (map fst (rows df) = map int [0 ..< length (rows df)])"

text \<open>
  What one row asks and what it gets, apart from where the result is stored: the URL
  built from the row's name, the entry that the outcome of its request gives, and the
  rows in order, each with the request number that follows the previous row's.  It is
  the reading of the loop that the statements below compare the loop with.
\<close>

definition row_url ::
    "string \<Rightarrow> string list \<Rightarrow> string \<Rightarrow> string option \<Rightarrow> cell list \<Rightarrow> exn_class + string" where
  "row_url search_url cols NAME search_string row =
     (case row_getitem cols row NAME of
        Inl e \<Rightarrow> Inl e
      | Inr PyNone \<Rightarrow> Inl AttributeError
      | Inr (Str name0) \<Rightarrow>
          Inr (build_url search_url (str_replace CHR '' '' ''+'' name0) search_string))"

definition entry_of :: "get_result \<Rightarrow> exn_class + entry" where
  "entry_of res =
     (case res of
        Raises c msg \<Rightarrow> (if c = Timeout then Inr (EStr ''TIMEOUT'') else Inl c)
      | Returns response \<Rightarrow>
          (case find_first span_value (soup response) of
             None \<Rightarrow> Inr (EStr ''NA'')
           | Some (span, siblings) \<Rightarrow> Inr (EContents (contents span))))"

fun lookups ::
    "network \<Rightarrow> (cell list \<Rightarrow> exn_class + string) \<Rightarrow> nat \<Rightarrow> (int \<times> cell list) list
      \<Rightarrow> exn_class + (entry list \<times> string list)" where
  "lookups net url_of n [] = Inr ([], [])"
| "lookups net url_of n (r # rs) =
     (case url_of (snd r) of
        Inl e \<Rightarrow> Inl e
      | Inr u \<Rightarrow>
          (case entry_of (net u n) of
             Inl e \<Rightarrow> Inl e
           | Inr en \<Rightarrow>
               (case lookups net url_of (Suc n) rs of
                  Inl e \<Rightarrow> Inl e
                | Inr (es, us) \<Rightarrow> Inr (en # es, u # us))))"

text \<open>A result page with the hit count, a base URL, and a network that times out once.\<close>

definition page_with_count :: "node list" where
  "page_with_count =
     [Tag ''html'' [] []
        [Tag ''body'' [] []
           [Tag ''div'' [''results-amount''] []
              [Tag ''span'' [''value''] [] [NavigableString ''1,234'']]]]]"

definition pubmed_url :: string where
  "pubmed_url = ''https://pubmed.ncbi.nlm.nih.gov/?term=''"

definition times_out_at :: "nat \<Rightarrow> network \<Rightarrow> network" where
  "times_out_at j net url n = (if n = j then Raises Timeout ''timed out'' else net url n)"

text \<open>A network on which one request fails to connect, and a table with swapped labels.\<close>

definition fails_at :: "nat \<Rightarrow> network \<Rightarrow> network" where
  "fails_at j net url n = (if n = j then Raises ConnectionError ''boom'' else net url n)"

definition swapped_df :: dataframe where
  "swapped_df =
     \<lparr>columns = [''CAS Number'', ''Chemical''],
      rows = [(1, [Str ''80-05-7'', Str ''Bisphenol A'']),
              (0, [Str ''7732-18-5'', Str ''Water''])]\<rparr>"

section \<open>Properties of the CAS validator\<close>

lemma str_replace_hyphen: "str_replace CHR ''-'' [] s = strip_hyphens s"
  by (induction s) (simp_all add: str_replace_def strip_hyphens_def)

lemma py_int_digit: "is_digit c \<Longrightarrow> py_int c = Inr (digit_value c)"
  by (simp add: py_int_def is_digit_def digit_value_def)

lemma py_int_non_digit: "\<not> is_digit c \<Longrightarrow> py_int c = Inl ValueError"
  by (auto simp add: py_int_def is_digit_def Let_def)

lemma weighted_terms_digits:
  "\<forall>c\<in>set cs. is_digit c \<Longrightarrow>
   weighted_terms (zip cs ws) = Inr (map (\<lambda>(c, w). digit_value c * w) (zip cs ws))"
proof (induction cs arbitrary: ws)
  case Nil
  then show ?case by simp
next
  case (Cons c cs)
  show ?case
  proof (cases ws)
    case Nil
    then show ?thesis by simp
  next
    case (Cons w ws')
    with Cons.prems Cons.IH [of ws'] show ?thesis
      by (simp add: py_int_digit)
  qed
qed

lemma weighted_terms_non_digit:
  "length ws = length cs \<Longrightarrow> \<exists>c\<in>set cs. \<not> is_digit c \<Longrightarrow>
   weighted_terms (zip cs ws) = Inl ValueError"
proof (induction cs arbitrary: ws)
  case Nil
  then show ?case by simp
next
  case (Cons c cs)
  then obtain w ws' where ws: "ws = w # ws'" and len: "length ws' = length cs"
    by (cases ws) auto
  show ?case
  proof (cases "is_digit c")
    case False
    then show ?thesis by (simp add: ws py_int_non_digit)
  next
    case True
    with Cons.prems have "\<exists>c\<in>set cs. \<not> is_digit c" by auto
    from Cons.IH [OF len this] True show ?thesis
      by (simp add: ws py_int_digit)
  qed
qed

lemma code_sum_is_spec_sum:
  "sum_list (map (\<lambda>(d, w). d * w) (zip (rev ds) (map int [1 ..< length ds + 1])))
   = spec_weighted_sum ds"
proof -
  let ?n = "length ds"
  have "zip (rev ds) (map int [1 ..< ?n + 1])
      = map (\<lambda>j. (rev ds ! j, int (j + 1))) [0 ..< ?n]"
    by (rule nth_equalityI) (simp_all del: upt_Suc)
  then have "sum_list (map (\<lambda>(d, w). d * w) (zip (rev ds) (map int [1 ..< ?n + 1])))
      = (\<Sum>j<?n. rev ds ! j * int (j + 1))"
    by (simp del: upt_Suc add: o_def sum_list_sum_nth atLeast0LessThan)
  also have "\<dots> = (\<Sum>j<?n. ds ! (?n - Suc j) * int (?n - (?n - Suc j)))"
    by (rule sum.cong) (auto simp add: rev_nth)
  also have "\<dots> = (\<Sum>i<?n. ds ! i * int (?n - i))"
    by (rule sum.nat_diff_reindex)
  also have "\<dots> = spec_weighted_sum ds"
    by (simp add: spec_weighted_sum_def sum_list_sum_nth atLeast0LessThan)
  finally show ?thesis .
qed

lemma validate_well_formed:
  assumes "strip_hyphens s \<noteq> []" and "\<forall>c\<in>set (strip_hyphens s). is_digit c"
  shows "validate_cas_number s = Inr (spec_valid s)"
proof -
  let ?d = "strip_hyphens s"
  from assms have l: "is_digit (last ?d)" by simp
  have b: "\<forall>c\<in>set (rev (butlast ?d)). is_digit c"
    using assms(2) by (auto dest: in_set_butlastD)
  have m: "map (\<lambda>(c, w). digit_value c * w) (zip (rev (butlast ?d)) ws)
         = map (\<lambda>(d, w). d * w) (zip (rev (map digit_value (butlast ?d))) ws)" for ws
    by (simp add: rev_map zip_map1 o_def split_def)
  show ?thesis
    using assms(1) code_sum_is_spec_sum [of "map digit_value (butlast ?d)"]
    by (simp del: upt_Suc add: validate_cas_number_def str_replace_hyphen py_int_digit [OF l]
        weighted_terms_digits [OF b] spec_valid_def Let_def m)
qed

text \<open>
  Claim C1.  On a CAS string that, once its hyphens are removed, is a non-empty run of
  decimal digits, \<open>validate_cas_number\<close> returns what the specification's algorithm
  computes: the last digit is the check digit, the digit next to it has weight 1, the
  one before weight 2 and so on, and the answer is whether the weighted sum modulo 10 is
  the check digit.  Water and bisphenol A validate; \<open>123-45-6\<close> does not.
\<close>

theorem validate_cas_number_checksum:
  assumes "strip_hyphens s \<noteq> []" and "\<forall>c\<in>set (strip_hyphens s). is_digit c"
  shows "validate_cas_number s = Inr (spec_valid s)
       \<and> validate_cas_number ''7732-18-5'' = Inr True
       \<and> validate_cas_number ''80-05-7'' = Inr True
       \<and> validate_cas_number ''123-45-6'' = Inr False"
proof -
  have "validate_cas_number ''7732-18-5'' = Inr True" by code_simp
  moreover have "validate_cas_number ''80-05-7'' = Inr True" by code_simp
  moreover have "validate_cas_number ''123-45-6'' = Inr False" by code_simp
  ultimately show ?thesis using validate_well_formed [OF assms] by simp
qed

theorem validate_cas_number_checksum_witness:
  "strip_hyphens ''50-00-0'' \<noteq> [] \<and> list_all is_digit (strip_hyphens ''50-00-0'')
   \<and> validate_cas_number ''50-00-0'' = Inr (spec_valid ''50-00-0'')
   \<and> spec_valid ''50-00-0''"
proof -
  have a: "strip_hyphens ''50-00-0'' \<noteq> []" by (simp add: strip_hyphens_def)
  have b: "\<forall>c\<in>set (strip_hyphens ''50-00-0''). is_digit c"
    by (simp add: strip_hyphens_def is_digit_def)
  have c: "spec_valid ''50-00-0''" by code_simp
  from validate_cas_number_checksum [OF a b] a b c show ?thesis
    by (simp add: list_all_iff)
qed

text \<open>
  Claim C3.  Two strings with the same characters apart from hyphens get the same
  result (a raise included), so a number written without hyphens validates as the
  hyphenated one does; \<open>7732185\<close> and \<open>7732-18-5\<close> agree.
\<close>

theorem validate_hyphen_insensitive:
  assumes "strip_hyphens s = strip_hyphens t"
  shows "validate_cas_number s = validate_cas_number t
       \<and> validate_cas_number (strip_hyphens s) = validate_cas_number s
       \<and> validate_cas_number ''7732185'' = validate_cas_number ''7732-18-5''"
proof -
  have "validate_cas_number ''7732185'' = validate_cas_number ''7732-18-5''" by code_simp
  moreover have "strip_hyphens (strip_hyphens u) = strip_hyphens u" for u
    by (simp add: strip_hyphens_def)
  ultimately show ?thesis using assms
    by (simp add: validate_cas_number_def str_replace_hyphen)
qed

theorem validate_hyphen_insensitive_witness:
  "strip_hyphens ''80057'' = strip_hyphens ''80-05-7''
   \<and> validate_cas_number ''80057'' = validate_cas_number ''80-05-7''
   \<and> validate_cas_number ''80-05-7'' = Inr True"
proof -
  have a: "strip_hyphens ''80057'' = strip_hyphens ''80-05-7''"
    by (simp add: strip_hyphens_def)
  have b: "validate_cas_number ''80-05-7'' = Inr True" by code_simp
  from validate_hyphen_insensitive [OF a] a b show ?thesis by simp
qed

section \<open>Malformed input and the table filter\<close>

lemma validate_empty: "strip_hyphens s = [] \<Longrightarrow> validate_cas_number s = Inl IndexError"
  by (simp add: validate_cas_number_def str_replace_hyphen)

lemma validate_non_digit:
  assumes "strip_hyphens s \<noteq> []" and "\<not> list_all is_digit (strip_hyphens s)"
  shows "validate_cas_number s = Inl ValueError"
proof (cases "is_digit (last (strip_hyphens s))")
  case False
  with assms(1) show ?thesis
    by (simp add: validate_cas_number_def str_replace_hyphen py_int_non_digit)
next
  case True
  let ?d = "strip_hyphens s"
  from assms(2) obtain c where c: "c \<in> set ?d" "\<not> is_digit c"
    by (auto simp add: list_all_iff)
  have "?d = butlast ?d @ [last ?d]" using assms(1) by simp
  then have "set ?d = set (butlast ?d) \<union> {last ?d}"
    by (metis Un_insert_right list.simps(15) set_append sup_bot.right_neutral list.set(1))
  with c True have "\<exists>c\<in>set (rev (butlast ?d)). \<not> is_digit c" by auto
  then have "weighted_terms (zip (rev (butlast ?d)) (map int [1 ..< length (butlast ?d) + 1]))
           = Inl ValueError"
    by (intro weighted_terms_non_digit) (simp_all del: upt_Suc)
  with assms(1) True show ?thesis
    by (simp del: upt_Suc add: validate_cas_number_def str_replace_hyphen py_int_digit)
qed

lemma validate_single_digit:
  "is_digit c \<Longrightarrow> validate_cas_number [c] = Inr (digit_value c = 0)"
  by (auto simp add: validate_cas_number_def str_replace_def py_int_digit is_digit_def)

text \<open>
  Claim C9, as the source has it.  The claim says that malformed input always raises;
  a lone digit, which has no digits before the check digit, is answered instead.
\<close>

theorem validate_lone_digit_returns_false: "validate_cas_number ''5'' = Inr False"
  by code_simp

text \<open>
  Claim C9, amended.  Input that is empty once its hyphens are removed raises
  \<open>IndexError\<close>; input with a character that is neither a digit nor a hyphen raises
  \<open>ValueError\<close>; a lone digit raises nothing: the empty weighted sum is 0, and the
  answer is whether the digit is 0.
\<close>

theorem validate_malformed:
  "(strip_hyphens s = [] \<longrightarrow> validate_cas_number s = Inl IndexError)
   \<and> (strip_hyphens t \<noteq> [] \<and> \<not> list_all is_digit (strip_hyphens t)
        \<longrightarrow> validate_cas_number t = Inl ValueError)
   \<and> (is_digit c \<longrightarrow> validate_cas_number [c] = Inr (digit_value c = 0))"
  using validate_empty validate_non_digit validate_single_digit by blast

theorem validate_malformed_witness:
  "strip_hyphens ''--'' = [] \<and> validate_cas_number ''--'' = Inl IndexError
   \<and> strip_hyphens ''12a-3'' \<noteq> [] \<and> \<not> list_all is_digit (strip_hyphens ''12a-3'')
   \<and> validate_cas_number ''12a-3'' = Inl ValueError
   \<and> is_digit CHR ''7'' \<and> validate_cas_number ''7'' = Inr False"
proof -
  have a: "strip_hyphens ''--'' = []" by (simp add: strip_hyphens_def)
  have b: "strip_hyphens ''12a-3'' \<noteq> []" by (simp add: strip_hyphens_def)
  have c: "\<not> list_all is_digit (strip_hyphens ''12a-3'')"
    by (simp add: strip_hyphens_def is_digit_def)
  have d: "is_digit CHR ''7''" by (simp add: is_digit_def)
  have e: "digit_value CHR ''7'' \<noteq> 0" by (simp add: digit_value_def)
  from validate_malformed [of "''--''" "''12a-3''" "CHR ''7''"] a b c d e
  show ?thesis by simp
qed

lemma validate_cell_well_formed:
  "well_formed_cas c \<Longrightarrow> \<exists>b. validate_cell c = Inr b"
  by (cases c) (simp_all add: validate_well_formed list_all_iff)

lemma mask_filter:
  "list_all (\<lambda>r. well_formed_cas (snd r ! j)) rs \<Longrightarrow>
   \<exists>mask. series_apply validate_cell (map (\<lambda>(label, cells). (label, cells ! j)) rs) = Inr mask
     \<and> map fst (filter (\<lambda>(r, (label, valid)). \<not> valid) (zip rs mask))
       = filter (\<lambda>r. validate_cell (snd r ! j) = Inr False) rs"
proof (induction rs)
  case Nil
  then show ?case by simp
next
  case (Cons r rs)
  obtain label cells where r: "r = (label, cells)" by (cases r)
  from Cons.prems r obtain b where b: "validate_cell (cells ! j) = Inr b"
    using validate_cell_well_formed by fastforce
  from Cons obtain mask where
    m: "series_apply validate_cell (map (\<lambda>(label, cells). (label, cells ! j)) rs) = Inr mask"
       "map fst (filter (\<lambda>(r, (label, valid)). \<not> valid) (zip rs mask))
        = filter (\<lambda>r. validate_cell (snd r ! j) = Inr False) rs"
    by auto
  show ?case using b m by (simp add: r)
qed

text \<open>
  Claim C2.  For a table with the column, whose cells in that column hold well-formed
  CAS strings, \<open>find_invalid_cas\<close> returns the table with exactly the rows on which
  \<open>validate_cas_number\<close> is false: in their order, each with its label and all its
  cells, under the same columns, and nothing printed.  When no row fails it prints
  \<open>All CASRNs are valid\<close> and returns \<open>None\<close>.
\<close>

theorem find_invalid_cas_filter:
  assumes "index_of column (columns df) = Some j"
    and "list_all (\<lambda>r. well_formed_cas (snd r ! j)) (rows df)"
  shows "find_invalid_cas df column =
     (let failing = filter (\<lambda>r. validate_cell (snd r ! j) = Inr False) (rows df)
      in if failing = [] then Inr ([''All CASRNs are valid''], None)
         else Inr ([], Some (df\<lparr>rows := failing\<rparr>)))"
proof -
  from mask_filter [OF assms(2)] obtain mask where
    m: "series_apply validate_cell (map (\<lambda>(label, cells). (label, cells ! j)) (rows df)) = Inr mask"
       "map fst (filter (\<lambda>(r, (label, valid)). \<not> valid) (zip (rows df) mask))
        = filter (\<lambda>r. validate_cell (snd r ! j) = Inr False) (rows df)"
    by auto
  from assms(1) have c: "columns df \<noteq> []" by (cases "columns df") simp_all
  show ?thesis
    using assms(1) m c by (simp add: find_invalid_cas_def getitem_def empty_frame_def Let_def)
qed

theorem find_invalid_cas_filter_witness:
  "index_of ''CAS Number'' (columns example_df) = Some 0
   \<and> list_all (\<lambda>r. well_formed_cas (snd r ! 0)) (rows example_df)
   \<and> find_invalid_cas example_df ''CAS Number''
     = Inr ([], Some (example_df\<lparr>rows := [(2, [Str ''123-45-6'', Str ''Fictional Compound''])]\<rparr>))"
proof -
  have a: "index_of ''CAS Number'' (columns example_df) = Some 0"
    by (simp add: example_df_def)
  have b: "list_all (\<lambda>r. well_formed_cas (snd r ! 0)) (rows example_df)"
    by (simp add: example_df_def strip_hyphens_def is_digit_def)
  have c: "filter (\<lambda>r. validate_cell (snd r ! 0) = Inr False) (rows example_df)
         = [(2, [Str ''123-45-6'', Str ''Fictional Compound''])]"
    by code_simp
  from find_invalid_cas_filter [OF a b] a b c show ?thesis by simp
qed

section \<open>The status step\<close>

lemma fetch_HMDB_status_world:
  "snd (fetch_HMDB_status net h w)
   = w\<lparr>requested := requested w @ [status_url h], slept := slept w + 2\<rparr>"
  by (simp add: fetch_HMDB_status_def requests_get_def time_sleep_def status_url_def Let_def)

lemma fetch_HMDB_status_str: "\<exists>s. fst (fetch_HMDB_status net h w) = Str s"
  by (simp add: fetch_HMDB_status_def requests_get_def Let_def)

lemma check_and_fetch_status_cases:
  "check_and_fetch_status net h w =
     (if h = Str ''HMDB ID not found'' then Inr (PyNone, w)
      else Inr (fst (fetch_HMDB_status net h w),
                w\<lparr>requested := requested w @ [status_url h], slept := slept w + 2\<rparr>))"
  using fetch_HMDB_status_world [of net h w]
  by (simp add: check_and_fetch_status_def prod_eq_iff)

lemma apply_status:
  "\<exists>statuses w'.
     apply_in_world (check_and_fetch_status net) series w = Inr (statuses, w')
     \<and> length statuses = length series
     \<and> requested w'
       = requested w @ map status_url (filter (\<lambda>h. h \<noteq> Str ''HMDB ID not found'') (map snd series))
     \<and> slept w'
       = slept w + 2 * length (filter (\<lambda>h. h \<noteq> Str ''HMDB ID not found'') (map snd series))
     \<and> (\<forall>i<length series. (statuses ! i = PyNone) = (snd (series ! i) = Str ''HMDB ID not found''))"
proof (induction series arbitrary: w)
  case Nil
  then show ?case by simp
next
  case (Cons r series)
  obtain label h where r: "r = (label, h)" by (cases r)
  show ?case
  proof (cases "h = Str ''HMDB ID not found''")
    case True
    from Cons.IH [of w] obtain statuses w' where
      ih: "apply_in_world (check_and_fetch_status net) series w = Inr (statuses, w')"
        "length statuses = length series"
        "requested w' = requested w @ map status_url (filter (\<lambda>h. h \<noteq> Str ''HMDB ID not found'') (map snd series))"
        "slept w' = slept w + 2 * length (filter (\<lambda>h. h \<noteq> Str ''HMDB ID not found'') (map snd series))"
        "\<forall>i<length series. (statuses ! i = PyNone) = (snd (series ! i) = Str ''HMDB ID not found'')"
      by blast
    have "\<forall>i<length (r # series). ((PyNone # statuses) ! i = PyNone)
            = (snd ((r # series) ! i) = Str ''HMDB ID not found'')"
      using ih(5) True r by (auto simp add: nth_Cons split: nat.splits)
    moreover have "check_and_fetch_status net h w = Inr (PyNone, w)"
      using True by (simp add: check_and_fetch_status_cases)
    ultimately show ?thesis using ih True r by simp
  next
    case False
    let ?w1 = "w\<lparr>requested := requested w @ [status_url h], slept := slept w + 2\<rparr>"
    obtain s where s: "fst (fetch_HMDB_status net h w) = Str s"
      using fetch_HMDB_status_str by blast
    from Cons.IH [of ?w1] obtain statuses w' where
      ih: "apply_in_world (check_and_fetch_status net) series ?w1 = Inr (statuses, w')"
        "length statuses = length series"
        "requested w' = requested ?w1 @ map status_url (filter (\<lambda>h. h \<noteq> Str ''HMDB ID not found'') (map snd series))"
        "slept w' = slept ?w1 + 2 * length (filter (\<lambda>h. h \<noteq> Str ''HMDB ID not found'') (map snd series))"
        "\<forall>i<length series. (statuses ! i = PyNone) = (snd (series ! i) = Str ''HMDB ID not found'')"
      by blast
    have "\<forall>i<length (r # series). ((Str s # statuses) ! i = PyNone)
            = (snd ((r # series) ! i) = Str ''HMDB ID not found'')"
      using ih(5) False r by (auto simp add: nth_Cons split: nat.splits)
    moreover have "check_and_fetch_status net h w = Inr (Str s, ?w1)"
      using False s by (simp add: check_and_fetch_status_cases)
    ultimately show ?thesis using ih False r by simp
  qed
qed

lemma getitem_column:
  "index_of column (columns df) = Some j \<Longrightarrow>
   getitem df column = Inr (map (\<lambda>(label, cells). (label, cells ! j)) (rows df))"
  by (simp add: getitem_def)

lemma snd_column: "map snd (map (\<lambda>(label, cells). (label, cells ! j)) rs) = map (\<lambda>r. snd r ! j) rs"
  by (induction rs) auto

lemma add_status_to_df_effect:
  assumes "index_of HMDBid_column (columns df) = Some j"
  shows "\<exists>statuses w'.
     add_status_to_df net df HMDBid_column w = Inr (setitem df ''HMDB_status'' statuses, w')
     \<and> length statuses = length (rows df)
     \<and> requested w'
       = requested w @ map status_url
           (filter (\<lambda>h. h \<noteq> Str ''HMDB ID not found'') (map (\<lambda>r. snd r ! j) (rows df)))
     \<and> slept w'
       = slept w + 2 * length
           (filter (\<lambda>h. h \<noteq> Str ''HMDB ID not found'') (map (\<lambda>r. snd r ! j) (rows df)))
     \<and> (\<forall>i<length (rows df).
           (statuses ! i = PyNone) = (snd (rows df ! i) ! j = Str ''HMDB ID not found''))"
proof -
  let ?series = "map (\<lambda>(label, cells). (label, cells ! j)) (rows df)"
  from apply_status [of net ?series w] obtain statuses w' where
    a: "apply_in_world (check_and_fetch_status net) ?series w = Inr (statuses, w')"
      "length statuses = length ?series"
      "requested w' = requested w @ map status_url (filter (\<lambda>h. h \<noteq> Str ''HMDB ID not found'') (map snd ?series))"
      "slept w' = slept w + 2 * length (filter (\<lambda>h. h \<noteq> Str ''HMDB ID not found'') (map snd ?series))"
      "\<forall>i<length ?series. (statuses ! i = PyNone) = (snd (?series ! i) = Str ''HMDB ID not found'')"
    by blast
  have len: "length statuses = length (rows df)" using a(2) by simp
  have req: "requested w' = requested w @ map status_url
      (filter (\<lambda>h. h \<noteq> Str ''HMDB ID not found'') (map (\<lambda>r. snd r ! j) (rows df)))"
    using a(3) unfolding snd_column .
  have slp: "slept w' = slept w + 2 * length
      (filter (\<lambda>h. h \<noteq> Str ''HMDB ID not found'') (map (\<lambda>r. snd r ! j) (rows df)))"
    using a(4) unfolding snd_column .
  have nn: "\<forall>i<length (rows df).
          (statuses ! i = PyNone) = (snd (rows df ! i) ! j = Str ''HMDB ID not found'')"
  proof (intro allI impI)
    fix i assume i: "i < length (rows df)"
    then have "snd (?series ! i) = snd (rows df ! i) ! j"
      by (simp add: split_def)
    with a(5) i show "(statuses ! i = PyNone) = (snd (rows df ! i) ! j = Str ''HMDB ID not found'')"
      by simp
  qed
  have "add_status_to_df net df HMDBid_column w = Inr (setitem df ''HMDB_status'' statuses, w')"
    using a(1) by (simp add: add_status_to_df_def getitem_column [OF assms])
  with len req slp nn show ?thesis by blast
qed

text \<open>
  Claim C6.  With the identifier column present, \<open>add_status_to_df\<close> returns the table
  with the column \<open>HMDB_status\<close> set, and the world shows what was done on the way:
  the requests added are the status pages of the rows whose identifier is not
  \<open>HMDB ID not found\<close>, one each and in row order, with one 2-second sleep each
  (\<open>fetch_HMDB_status\<close> makes one request and sleeps once per call); the rows holding the
  sentinel, and only they, get \<open>None\<close>.
\<close>

theorem add_status_to_df_short_circuit:
  assumes "index_of HMDBid_column (columns df) = Some j"
  shows "\<exists>statuses w'.
     add_status_to_df net df HMDBid_column w = Inr (setitem df ''HMDB_status'' statuses, w')
     \<and> length statuses = length (rows df)
     \<and> requested w'
       = requested w @ map status_url
           (filter (\<lambda>h. h \<noteq> Str ''HMDB ID not found'') (map (\<lambda>r. snd r ! j) (rows df)))
     \<and> slept w'
       = slept w + 2 * length
           (filter (\<lambda>h. h \<noteq> Str ''HMDB ID not found'') (map (\<lambda>r. snd r ! j) (rows df)))
     \<and> (\<forall>i<length (rows df).
           (statuses ! i = PyNone) = (snd (rows df ! i) ! j = Str ''HMDB ID not found''))"
  using assms by (rule add_status_to_df_effect)

theorem add_status_to_df_short_circuit_witness:
  "index_of ''HMDB_id'' (columns enriched_df) = Some 1
   \<and> add_status_to_df (serves page_with_status) enriched_df ''HMDB_id'' fresh_world
     = Inr (\<lparr>columns = [''casId_final'', ''HMDB_id'', ''HMDB_status''],
             rows = [(0, [Str ''7732-18-5'', Str ''HMDB0002111'', Str ''Detected and Quantified'']),
                     (1, [Str ''80-05-7'', Str ''HMDB ID not found'', PyNone]),
                     (2, [Str ''1-1-1'', Str ''Error: boom'', Str ''Detected and Quantified''])]\<rparr>,
            \<lparr>requested = [''https://hmdb.ca/metabolites/HMDB0002111'',
                           ''https://hmdb.ca/metabolites/Error: boom''],
              slept = 4\<rparr>)"
proof -
  have a: "index_of ''HMDB_id'' (columns enriched_df) = Some 1"
    by (simp add: enriched_df_def)
  from add_status_to_df_short_circuit [OF a, of "serves page_with_status" fresh_world]
  obtain statuses w' where
    r: "add_status_to_df (serves page_with_status) enriched_df ''HMDB_id'' fresh_world
        = Inr (setitem enriched_df ''HMDB_status'' statuses, w')"
    by blast
  have e: "add_status_to_df (serves page_with_status) enriched_df ''HMDB_id'' fresh_world
     = Inr (\<lparr>columns = [''casId_final'', ''HMDB_id'', ''HMDB_status''],
             rows = [(0, [Str ''7732-18-5'', Str ''HMDB0002111'', Str ''Detected and Quantified'']),
                     (1, [Str ''80-05-7'', Str ''HMDB ID not found'', PyNone]),
                     (2, [Str ''1-1-1'', Str ''Error: boom'', Str ''Detected and Quantified''])]\<rparr>,
            \<lparr>requested = [''https://hmdb.ca/metabolites/HMDB0002111'',
                           ''https://hmdb.ca/metabolites/Error: boom''],
              slept = 4\<rparr>)"
    by code_simp
  from a r e show ?thesis by simp
qed

section \<open>Status lookup on pages and on error identifiers\<close>

lemma fetch_HMDB_status_no_header:
  assumes "net (status_url h) (length (requested w)) = Returns (Response None page)"
    and "find_first th_status page = None"
  shows "fst (fetch_HMDB_status net h w)
       = Str (''Error: 'NoneType' object has no attribute 'find_next_sibling'' @ [CHR 0x27])"
  using assms
  by (simp add: fetch_HMDB_status_def requests_get_def status_url_def Let_def)

lemma fetch_HMDB_status_no_value:
  assumes "net (status_url h) (length (requested w)) = Returns (Response None page)"
    and "find_first th_status page = Some (th, siblings)"
    and "find_next_sibling ''td'' siblings = None"
  shows "fst (fetch_HMDB_status net h w) = Str ''Not Found''"
  using assms
  by (simp add: fetch_HMDB_status_def requests_get_def status_url_def Let_def)

lemma fetch_HMDB_status_raises:
  assumes "net (status_url h) (length (requested w)) = Raises c msg"
  shows "fst (fetch_HMDB_status net h w) = Str (''Error: '' @ msg)"
  using assms
  by (simp add: fetch_HMDB_status_def requests_get_def status_url_def Let_def)

text \<open>
  Claim C7, on the source.  \<open>fetch_HMDB_status\<close> never raises (its result is a string,
  whatever the network does), an exception gives \<open>Error:\<close> with its message, and a page
  with the \<open>Status\<close> header cell but no value cell after it gives \<open>Not Found\<close>.  A page
  without the header cell does not: \<open>find\<close> returns \<open>None\<close>, calling
  \<open>find_next_sibling\<close> on it raises \<open>AttributeError\<close>, and the handler turns that
  into an \<open>Error:\<close> string.
\<close>

theorem fetch_HMDB_status_missing_header:
  "fst (fetch_HMDB_status (serves page_without_status) (Str ''HMDB0000001'') fresh_world)
     = Str (''Error: 'NoneType' object has no attribute 'find_next_sibling'' @ [CHR 0x27])
   \<and> fst (fetch_HMDB_status (serves page_without_status) (Str ''HMDB0000001'') fresh_world)
     \<noteq> Str ''Not Found''
   \<and> fst (fetch_HMDB_status (serves page_status_without_value) (Str ''HMDB0000001'') fresh_world)
     = Str ''Not Found''
   \<and> fst (fetch_HMDB_status (serves page_with_status) (Str ''HMDB0000001'') fresh_world)
     = Str ''Detected and Quantified''"
  by code_simp

lemma extract_hmdb_id_raises:
  assumes "net (hmdb_search_url cas) (length (requested w)) = Raises c msg"
  shows "extract_hmdb_id net (Str cas) w
       = Inr (Str (''Error: '' @ msg),
              w\<lparr>requested := requested w @ [hmdb_search_url cas], slept := slept w + 2\<rparr>)"
  using assms
  by (simp add: extract_hmdb_id_def requests_get_def hmdb_search_url_def time_sleep_def Let_def)

text \<open>
  Claim C10.  Only the exact string \<open>HMDB ID not found\<close> is short-circuited.
  \<open>extract_hmdb_id\<close> turns an exception of its request into the identifier
  \<open>Error: \<close> followed by the message; for a row whose identifier begins with
  \<open>Error:\<close>, \<open>add_status_to_df\<close> does not write \<open>None\<close> but calls
  \<open>fetch_HMDB_status\<close> with it, and the status page of that string is among the
  requests it makes.
\<close>

theorem error_identifier_is_looked_up:
  assumes "index_of HMDBid_column (columns df) = Some j"
    and "i < length (rows df)"
    and "snd (rows df ! i) ! j = Str e"
    and "take 6 e = ''Error:''"
  shows "(\<exists>statuses w'.
       add_status_to_df net df HMDBid_column w = Inr (setitem df ''HMDB_status'' statuses, w')
       \<and> statuses ! i \<noteq> PyNone
       \<and> ''https://hmdb.ca/metabolites/'' @ e
           \<in> set (drop (length (requested w)) (requested w')))
     \<and> (net (hmdb_search_url cas) (length (requested w)) = Raises c msg
        \<longrightarrow> (\<exists>w'. extract_hmdb_id net (Str cas) w = Inr (Str (''Error: '' @ msg), w'))
            \<and> take 6 (''Error: '' @ msg) = ''Error:'')"
proof -
  let ?ids = "map (\<lambda>r. snd r ! j) (rows df)"
  let ?P = "\<lambda>h. h \<noteq> Str ''HMDB ID not found''"
  from add_status_to_df_effect [OF assms(1), of net w] obtain statuses w' where
    a: "add_status_to_df net df HMDBid_column w = Inr (setitem df ''HMDB_status'' statuses, w')"
      "requested w' = requested w @ map status_url (filter ?P ?ids)"
      "\<forall>i<length (rows df).
           (statuses ! i = PyNone) = (snd (rows df ! i) ! j = Str ''HMDB ID not found'')"
    by blast
  have "e \<noteq> ''HMDB ID not found''" using assms(4) by auto
  then have ne: "Str e \<noteq> Str ''HMDB ID not found''" by simp
  from a(3) assms(2,3) ne have n: "statuses ! i \<noteq> PyNone" by simp
  have "Str e \<in> set ?ids"
    using assms(2,3) by (metis (mono_tags, lifting) length_map nth_map nth_mem)
  with ne have "Str e \<in> set (filter ?P ?ids)" by simp
  then have "status_url (Str e) \<in> set (map status_url (filter ?P ?ids))"
    unfolding set_map by (rule imageI)
  then have "''https://hmdb.ca/metabolites/'' @ e
      \<in> set (drop (length (requested w)) (requested w'))"
    by (simp add: a(2) status_url_def)
  with a(1) n have "\<exists>statuses w'.
       add_status_to_df net df HMDBid_column w = Inr (setitem df ''HMDB_status'' statuses, w')
       \<and> statuses ! i \<noteq> PyNone
       \<and> ''https://hmdb.ca/metabolites/'' @ e
           \<in> set (drop (length (requested w)) (requested w'))"
    by blast
  moreover have "take 6 (''Error: '' @ msg) = ''Error:''" by simp
  ultimately show ?thesis using extract_hmdb_id_raises by blast
qed

theorem error_identifier_is_looked_up_witness:
  "index_of ''HMDB_id'' (columns enriched_df) = Some 1
   \<and> 2 < length (rows enriched_df)
   \<and> snd (rows enriched_df ! 2) ! 1 = Str ''Error: boom''
   \<and> take 6 ''Error: boom'' = ''Error:''
   \<and> refuses (hmdb_search_url ''1-1-1'') (length (requested fresh_world))
       = Raises ConnectionError ''boom''
   \<and> extract_hmdb_id refuses (Str ''1-1-1'') fresh_world
       = Inr (Str ''Error: boom'', \<lparr>requested = [hmdb_search_url ''1-1-1''], slept = 2\<rparr>)
   \<and> add_status_to_df refuses enriched_df ''HMDB_id'' fresh_world
       = Inr (\<lparr>columns = [''casId_final'', ''HMDB_id'', ''HMDB_status''],
               rows = [(0, [Str ''7732-18-5'', Str ''HMDB0002111'', Str ''Error: boom'']),
                       (1, [Str ''80-05-7'', Str ''HMDB ID not found'', PyNone]),
                       (2, [Str ''1-1-1'', Str ''Error: boom'', Str ''Error: boom''])]\<rparr>,
              \<lparr>requested = [''https://hmdb.ca/metabolites/HMDB0002111'',
                             ''https://hmdb.ca/metabolites/Error: boom''],
                slept = 4\<rparr>)"
proof -
  have a: "index_of ''HMDB_id'' (columns enriched_df) = Some 1"
    by (simp add: enriched_df_def)
  have b: "2 < length (rows enriched_df)" by (simp add: enriched_df_def)
  have c: "snd (rows enriched_df ! 2) ! 1 = Str ''Error: boom''"
    by (simp add: enriched_df_def)
  have c': "take 6 ''Error: boom'' = ''Error:''" by simp
  have d: "refuses (hmdb_search_url ''1-1-1'') (length (requested fresh_world))
       = Raises ConnectionError ''boom''"
    by (simp add: refuses_def)
  have e: "extract_hmdb_id refuses (Str ''1-1-1'') fresh_world
       = Inr (Str ''Error: boom'', \<lparr>requested = [hmdb_search_url ''1-1-1''], slept = 2\<rparr>)"
    by code_simp
  have f: "add_status_to_df refuses enriched_df ''HMDB_id'' fresh_world
       = Inr (\<lparr>columns = [''casId_final'', ''HMDB_id'', ''HMDB_status''],
               rows = [(0, [Str ''7732-18-5'', Str ''HMDB0002111'', Str ''Error: boom'']),
                       (1, [Str ''80-05-7'', Str ''HMDB ID not found'', PyNone]),
                       (2, [Str ''1-1-1'', Str ''Error: boom'', Str ''Error: boom''])]\<rparr>,
              \<lparr>requested = [''https://hmdb.ca/metabolites/HMDB0002111'',
                             ''https://hmdb.ca/metabolites/Error: boom''],
                slept = 4\<rparr>)"
    by code_simp
  from error_identifier_is_looked_up
         [OF a b c c', of refuses fresh_world "''1-1-1''" ConnectionError "''boom''"]
  have "\<exists>w'. extract_hmdb_id refuses (Str ''1-1-1'') fresh_world = Inr (Str (''Error: '' @ ''boom''), w')"
    using d by blast
  with a b c c' d e f show ?thesis by (intro conjI)
qed

section \<open>The hit counter as a sequence of lookups\<close>

lemma list_setitem_in_range:
  "0 \<le> i \<Longrightarrow> i < int (length xs) \<Longrightarrow> list_setitem xs i v = Inr (xs[nat i := v])"
  by (simp add: list_setitem_def)

lemma process_row_in_range:
  assumes "0 \<le> index" and "index < int (length ns)"
  shows "process_row net search_url cols NAME search_string (index, row) (ns, w) =
     (case row_url search_url cols NAME search_string row of
        Inl e \<Rightarrow> Inl e
      | Inr u \<Rightarrow>
          (case entry_of (net u (length (requested w))) of
             Inl e \<Rightarrow> Inl e
           | Inr en \<Rightarrow> Inr (ns[nat index := en], w\<lparr>requested := requested w @ [u]\<rparr>)))"
  by (simp add: process_row_def row_url_def entry_of_def requests_get_def Let_def
      list_setitem_in_range [OF assms]
      split: sum.splits cell.splits get_result.splits option.splits prod.splits)

lemma loop_skip:
  "\<forall>r\<in>set rs. fst r < k \<Longrightarrow>
   iterrows_loop net search_url cols NAME search_string k (rs @ rs') st
   = iterrows_loop net search_url cols NAME search_string k rs' st"
  by (induction rs) simp_all

lemma loop_from:
  "map fst rs = map int [m ..< m + length rs] \<Longrightarrow> m + length rs \<le> length ns \<Longrightarrow> k \<le> int m \<Longrightarrow>
   iterrows_loop net search_url cols NAME search_string k rs (ns, w) =
     (case lookups net (row_url search_url cols NAME search_string) (length (requested w)) rs of
        Inl e \<Rightarrow> Inl e
      | Inr (es, us) \<Rightarrow>
          Inr (take m ns @ es @ drop (m + length rs) ns, w\<lparr>requested := requested w @ us\<rparr>))"
proof (induction rs arbitrary: m ns w)
  case Nil
  then show ?case by simp
next
  case (Cons r rs)
  obtain index row where r: "r = (index, row)" by (cases r)
  have "[m ..< m + length (r # rs)] = m # [Suc m ..< Suc m + length rs]"
    by (simp add: upt_conv_Cons del: upt_Suc)
  with Cons.prems(1) have idx: "index = int m"
    and rest: "map fst rs = map int [Suc m ..< Suc m + length rs]"
    by (simp_all add: r del: upt_Suc)
  from Cons.prems(2) have m: "m < length ns" and le: "Suc m + length rs \<le> length ns"
    by simp_all
  have nk: "\<not> index < k" using Cons.prems(3) idx by simp
  have pr: "process_row net search_url cols NAME search_string (index, row) (ns, w) =
     (case row_url search_url cols NAME search_string row of
        Inl e \<Rightarrow> Inl e
      | Inr u \<Rightarrow>
          (case entry_of (net u (length (requested w))) of
             Inl e \<Rightarrow> Inl e
           | Inr en \<Rightarrow> Inr (ns[m := en], w\<lparr>requested := requested w @ [u]\<rparr>)))"
    using process_row_in_range [of "int m" ns net search_url cols NAME search_string row w] m
    unfolding idx nat_int by simp
  show ?case
  proof (cases "row_url search_url cols NAME search_string row")
    case (Inl e)
    then show ?thesis using nk pr by (simp add: r)
  next
    case (Inr u)
    show ?thesis
    proof (cases "entry_of (net u (length (requested w)))")
      case (Inl e)
      then show ?thesis using nk pr Inr by (simp add: r)
    next
      case en: (Inr en)
      let ?ns = "ns[m := en]" and ?w = "w\<lparr>requested := requested w @ [u]\<rparr>"
      have ih: "iterrows_loop net search_url cols NAME search_string k rs (?ns, ?w) =
         (case lookups net (row_url search_url cols NAME search_string) (Suc (length (requested w))) rs of
            Inl e \<Rightarrow> Inl e
          | Inr (es, us) \<Rightarrow>
              Inr (take (Suc m) ?ns @ es @ drop (Suc m + length rs) ?ns,
                   ?w\<lparr>requested := requested ?w @ us\<rparr>))"
        using Cons.IH [of "Suc m" ?ns ?w] rest le Cons.prems(3) by simp
      have t: "take (Suc m) ?ns = take m ns @ [en]"
        using m by (simp add: take_Suc_conv_app_nth)
      have d: "drop (Suc m + length rs) ?ns = drop (Suc m + length rs) ns"
        by simp
      show ?thesis
        using nk pr Inr en ih t d
        by (simp add: r split: sum.splits prod.splits)
    qed
  qed
qed

lemma default_index_take:
  assumes "default_index df" and "k \<le> length (rows df)"
  shows "\<forall>r\<in>set (take k (rows df)). fst r < int k"
proof -
  have "map fst (take k (rows df)) = take k (map fst (rows df))"
    by (simp add: take_map)
  also have "\<dots> = take k (map int [0 ..< length (rows df)])"
    using assms(1) by (simp add: default_index_def)
  also have "\<dots> = map int (take k [0 ..< length (rows df)])"
    by (simp add: take_map)
  also have "\<dots> = map int [0 ..< k]"
    using assms(2) by simp
  finally have "set (map fst (take k (rows df))) = int ` {0 ..< k}" by simp
  then have "fst ` set (take k (rows df)) = int ` {0 ..< k}" by simp
  then show ?thesis by (auto simp add: image_iff dest!: equalityD1 [THEN subsetD, OF _ imageI])
qed

lemma default_index_drop:
  assumes "default_index df" and "k \<le> length (rows df)"
  shows "map fst (drop k (rows df)) = map int [k ..< k + length (drop k (rows df))]"
proof -
  have "map fst (drop k (rows df)) = drop k (map fst (rows df))"
    by (simp add: drop_map)
  also have "\<dots> = drop k (map int [0 ..< length (rows df)])"
    using assms(1) by (simp add: default_index_def)
  also have "\<dots> = map int (drop k [0 ..< length (rows df)])"
    by (simp add: drop_map)
  also have "\<dots> = map int [k ..< k + length (drop k (rows df))]"
    using assms(2) by simp
  finally show ?thesis .
qed

lemma PubMed_run:
  assumes "default_index df" and "k \<le> length (rows df)"
  shows "PubMed_results_biomon_terms net search_url df NAME search_string (int k) w =
     (case lookups net (row_url search_url (columns df) NAME search_string)
             (length (requested w)) (drop k (rows df)) of
        Inl e \<Rightarrow> Inl e
      | Inr (es, us) \<Rightarrow>
          Inr (replicate k (EStr ''NA'') @ es, w\<lparr>requested := requested w @ us\<rparr>))"
proof -
  let ?n = "length (rows df)"
  let ?ns = "replicate ?n (EStr ''NA'')"
  have "iterrows_loop net search_url (columns df) NAME search_string (int k)
          (take k (rows df) @ drop k (rows df)) (?ns, w)
      = iterrows_loop net search_url (columns df) NAME search_string (int k)
          (drop k (rows df)) (?ns, w)"
    by (rule loop_skip) (rule default_index_take [OF assms])
  also have "\<dots> =
     (case lookups net (row_url search_url (columns df) NAME search_string)
             (length (requested w)) (drop k (rows df)) of
        Inl e \<Rightarrow> Inl e
      | Inr (es, us) \<Rightarrow>
          Inr (take k ?ns @ es @ drop (k + length (drop k (rows df))) ?ns,
               w\<lparr>requested := requested w @ us\<rparr>))"
    using assms(2) by (intro loop_from default_index_drop [OF assms]) simp_all
  finally show ?thesis
    using assms(2)
    by (simp add: PubMed_results_biomon_terms_def min_def split: sum.splits prod.splits)
qed

section \<open>Resuming, timeouts and recorded entries\<close>


lemma lookups_nth:
  "lookups net url_of n rs = Inr (es, us) \<Longrightarrow> j < length rs \<Longrightarrow>
   url_of (snd (rs ! j)) = Inr (us ! j) \<and> entry_of (net (us ! j) (n + j)) = Inr (es ! j)"
proof (induction rs arbitrary: n es us j)
  case Nil
  then show ?case by simp
next
  case (Cons r rs)
  from Cons.prems(1) obtain u en es' us' where
    h: "url_of (snd r) = Inr u" "entry_of (net u n) = Inr en"
       "lookups net url_of (Suc n) rs = Inr (es', us')" "es = en # es'" "us = u # us'"
    by (auto split: sum.splits prod.splits)
  show ?case
  proof (cases j)
    case 0
    with h show ?thesis by simp
  next
    case (Suc j')
    with Cons.prems(2) have "j' < length rs" by simp
    from Cons.IH [OF h(3) this] h Suc show ?thesis by simp
  qed
qed

lemma lookups_agree:
  "\<forall>u m. n \<le> m \<longrightarrow> net' u m = net u m \<Longrightarrow> lookups net' url_of n rs = lookups net url_of n rs"
  by (induction rs arbitrary: n) (simp_all split: sum.splits)



lemma lookups_timeout:
  "lookups net url_of n rs = Inr (es, us) \<Longrightarrow> j < length rs \<Longrightarrow>
   \<forall>u m. m \<noteq> n + j \<longrightarrow> net' u m = net u m \<Longrightarrow>
   net' (us ! j) (n + j) = Raises Timeout msg \<Longrightarrow>
   lookups net' url_of n rs = Inr (es[j := EStr ''TIMEOUT''], us)"
proof (induction rs arbitrary: n es us j)
  case Nil
  then show ?case by simp
next
  case (Cons r rs)
  from Cons.prems(1) obtain u en es' us' where
    h: "url_of (snd r) = Inr u" "entry_of (net u n) = Inr en"
       "lookups net url_of (Suc n) rs = Inr (es', us')" "es = en # es'" "us = u # us'"
    by (auto split: sum.splits prod.splits)
  show ?case
  proof (cases j)
    case 0
    from Cons.prems(3) 0 have "\<forall>u m. Suc n \<le> m \<longrightarrow> net' u m = net u m" by simp
    then have "lookups net' url_of (Suc n) rs = lookups net url_of (Suc n) rs"
      by (rule lookups_agree)
    moreover from Cons.prems(4) 0 h have "entry_of (net' u n) = Inr (EStr ''TIMEOUT'')"
      by (simp add: entry_of_def)
    ultimately show ?thesis using h 0 by simp
  next
    case (Suc j')
    from Cons.prems(2) Suc have j': "j' < length rs" by simp
    from Cons.prems(3) Suc have a: "\<forall>u m. m \<noteq> Suc n + j' \<longrightarrow> net' u m = net u m" by simp
    from Cons.prems(4) Suc h have b: "net' (us' ! j') (Suc n + j') = Raises Timeout msg" by simp
    from Cons.prems(3) Suc have "net' u n = net u n" by simp
    with Cons.IH [OF h(3) j' a b] h Suc show ?thesis by simp
  qed
qed

lemma PubMed_returns:
  assumes "default_index df" and "k \<le> length (rows df)"
    and "PubMed_results_biomon_terms net search_url df NAME search_string (int k) w = Inr (res, w')"
  shows "\<exists>es us.
     lookups net (row_url search_url (columns df) NAME search_string)
       (length (requested w)) (drop k (rows df)) = Inr (es, us)
     \<and> res = replicate k (EStr ''NA'') @ es \<and> w' = w\<lparr>requested := requested w @ us\<rparr>"
  using assms(3) unfolding PubMed_run [OF assms(1,2)]
  by (auto split: sum.splits prod.splits)



text \<open>
  Claim C5, on the source.  The claim does not hold for every table nor against every
  other way a request can end.  The entry is stored at the index label of the row: for
  the one row that \<open>find_invalid_cas\<close> returns for the example table, labelled 2, the
  assignment of \<open>TIMEOUT\<close> in the handler raises \<open>IndexError\<close> and the call ends; with
  the labels 1 and 0 the timeout of the first row is stored at index 1.  And the rows
  after row \<open>i\<close> have results when its request times out, but none when it fails to
  connect: only the timeout is caught.
\<close>

theorem timeout_outside_default_index:
  "PubMed_results_biomon_terms (times_out_at 0 (serves page_with_count)) pubmed_url
       (example_df\<lparr>rows := [(2, [Str ''123-45-6'', Str ''Fictional Compound''])]\<rparr>)
       ''Chemical'' None 0 fresh_world
     = Inl IndexError
   \<and> PubMed_results_biomon_terms (times_out_at 0 (serves page_with_count)) pubmed_url swapped_df
       ''Chemical'' None 0 fresh_world
     = Inr ([EContents [NavigableString ''1,234''], EStr ''TIMEOUT''],
            \<lparr>requested = [''https://pubmed.ncbi.nlm.nih.gov/?term=(\"Bisphenol+A\")'',
                           ''https://pubmed.ncbi.nlm.nih.gov/?term=(\"Water\")''],
              slept = 0\<rparr>)
   \<and> PubMed_results_biomon_terms (times_out_at 1 (serves page_with_count)) pubmed_url example_df
       ''Chemical'' None 0 fresh_world
     = Inr ([EContents [NavigableString ''1,234''], EStr ''TIMEOUT'',
             EContents [NavigableString ''1,234''], EContents [NavigableString ''1,234'']],
            \<lparr>requested = [''https://pubmed.ncbi.nlm.nih.gov/?term=(\"Water\")'',
                           ''https://pubmed.ncbi.nlm.nih.gov/?term=(\"Bisphenol+A\")'',
                           ''https://pubmed.ncbi.nlm.nih.gov/?term=(\"Fictional+Compound\")'',
                           ''https://pubmed.ncbi.nlm.nih.gov/?term=(\"Formaldehyde\")''],
              slept = 0\<rparr>)
   \<and> PubMed_results_biomon_terms (fails_at 1 (serves page_with_count)) pubmed_url example_df
       ''Chemical'' None 0 fresh_world
     = Inl ConnectionError"
  by code_simp

text \<open>
  Claim C5, amended.  Take a table with the default index and a run on it that returns
  (no request raises anything but a timeout), and let the request of row \<open>i\<close> (not
  skipped) time out instead, every other request being answered as before.  The run
  still returns, with \<open>TIMEOUT\<close> at index \<open>i\<close> and every other entry as it was; the rows
  after \<open>i\<close> are processed and the same requests are made.
\<close>

theorem timeout_is_isolated:
  assumes "default_index df" and "k \<le> i" and "i < length (rows df)"
    and "PubMed_results_biomon_terms net search_url df NAME search_string (int k) w
           = Inr (res, w')"
    and "\<forall>u m. m \<noteq> length (requested w) + (i - k) \<longrightarrow> net' u m = net u m"
    and "net' (requested w' ! (length (requested w) + (i - k))) (length (requested w) + (i - k))
           = Raises Timeout msg"
  shows "PubMed_results_biomon_terms net' search_url df NAME search_string (int k) w
       = Inr (res[i := EStr ''TIMEOUT''], w')"
proof -
  let ?f = "row_url search_url (columns df) NAME search_string"
  let ?n = "length (requested w)"
  from assms(2,3) have k: "k \<le> length (rows df)" by simp
  from PubMed_returns [OF assms(1) k assms(4)] obtain es us where
    l: "lookups net ?f ?n (drop k (rows df)) = Inr (es, us)"
    and res: "res = replicate k (EStr ''NA'') @ es"
    and w': "w' = w\<lparr>requested := requested w @ us\<rparr>"
    by blast
  from assms(2,3) have j: "i - k < length (drop k (rows df))" by simp
  have "requested w' ! (?n + (i - k)) = us ! (i - k)"
    by (simp add: w' nth_append)
  with assms(6) have t: "net' (us ! (i - k)) (?n + (i - k)) = Raises Timeout msg" by simp
  from lookups_timeout [OF l j assms(5) t]
  have "lookups net' ?f ?n (drop k (rows df)) = Inr (es[i - k := EStr ''TIMEOUT''], us)" .
  then have "PubMed_results_biomon_terms net' search_url df NAME search_string (int k) w
       = Inr (replicate k (EStr ''NA'') @ es[i - k := EStr ''TIMEOUT''], w')"
    by (simp add: PubMed_run [OF assms(1) k] w')
  moreover have "res[i := EStr ''TIMEOUT''] = replicate k (EStr ''NA'') @ es[i - k := EStr ''TIMEOUT'']"
    using assms(2) by (simp add: res list_update_append)
  ultimately show ?thesis by simp
qed

theorem timeout_is_isolated_witness:
  "default_index example_df
   \<and> PubMed_results_biomon_terms (serves page_with_count) pubmed_url example_df ''Chemical'' None 0
        fresh_world
      = Inr ([EContents [NavigableString ''1,234''], EContents [NavigableString ''1,234''],
              EContents [NavigableString ''1,234''], EContents [NavigableString ''1,234'']],
             \<lparr>requested = [''https://pubmed.ncbi.nlm.nih.gov/?term=(\"Water\")'',
                            ''https://pubmed.ncbi.nlm.nih.gov/?term=(\"Bisphenol+A\")'',
                            ''https://pubmed.ncbi.nlm.nih.gov/?term=(\"Fictional+Compound\")'',
                            ''https://pubmed.ncbi.nlm.nih.gov/?term=(\"Formaldehyde\")''],
               slept = 0\<rparr>)
   \<and> times_out_at 1 (serves page_with_count)
        ''https://pubmed.ncbi.nlm.nih.gov/?term=(\"Bisphenol+A\")'' 1
      = Raises Timeout ''timed out''
   \<and> PubMed_results_biomon_terms (times_out_at 1 (serves page_with_count)) pubmed_url example_df
        ''Chemical'' None 0 fresh_world
      = Inr ([EContents [NavigableString ''1,234''], EStr ''TIMEOUT'',
              EContents [NavigableString ''1,234''], EContents [NavigableString ''1,234'']],
             \<lparr>requested = [''https://pubmed.ncbi.nlm.nih.gov/?term=(\"Water\")'',
                            ''https://pubmed.ncbi.nlm.nih.gov/?term=(\"Bisphenol+A\")'',
                            ''https://pubmed.ncbi.nlm.nih.gov/?term=(\"Fictional+Compound\")'',
                            ''https://pubmed.ncbi.nlm.nih.gov/?term=(\"Formaldehyde\")''],
               slept = 0\<rparr>)"
proof -
  let ?w' = "\<lparr>requested = [''https://pubmed.ncbi.nlm.nih.gov/?term=(\"Water\")'',
                            ''https://pubmed.ncbi.nlm.nih.gov/?term=(\"Bisphenol+A\")'',
                            ''https://pubmed.ncbi.nlm.nih.gov/?term=(\"Fictional+Compound\")'',
                            ''https://pubmed.ncbi.nlm.nih.gov/?term=(\"Formaldehyde\")''],
               slept = 0\<rparr>"
  have a: "default_index example_df"
    by (simp add: default_index_def example_df_def upt_rec)
  have b: "(0::nat) \<le> 1" by simp
  have c: "1 < length (rows example_df)" by (simp add: example_df_def)
  have d: "PubMed_results_biomon_terms (serves page_with_count) pubmed_url example_df ''Chemical'' None
        (int 0) fresh_world
      = Inr ([EContents [NavigableString ''1,234''], EContents [NavigableString ''1,234''],
              EContents [NavigableString ''1,234''], EContents [NavigableString ''1,234'']], ?w')"
    by code_simp
  have e: "\<forall>u m. m \<noteq> length (requested fresh_world) + (1 - 0)
        \<longrightarrow> times_out_at 1 (serves page_with_count) u m = serves page_with_count u m"
    by (simp add: times_out_at_def fresh_world_def)
  have f: "times_out_at 1 (serves page_with_count)
        (requested ?w' ! (length (requested fresh_world) + (1 - 0)))
        (length (requested fresh_world) + (1 - 0))
      = Raises Timeout ''timed out''"
    by (simp add: times_out_at_def fresh_world_def)
  have g: "times_out_at 1 (serves page_with_count)
        ''https://pubmed.ncbi.nlm.nih.gov/?term=(\"Bisphenol+A\")'' 1
      = Raises Timeout ''timed out''"
    by (simp add: times_out_at_def)
  from timeout_is_isolated [OF a b c d e f] a d g show ?thesis by simp
qed

text \<open>
  Claim C8, on the source.  For a page whose span holds the hit count \<open>1,234\<close> the entry
  recorded is not that text but the \<open>contents\<close> of the span: the list of its child
  nodes, here the one text node.  For a row whose index label is no position of the
  list (the one row labelled 2) nothing is recorded: the call ends with \<open>IndexError\<close>.
\<close>

theorem recorded_entry_is_not_the_text:
  "find_first span_value page_with_count
     = Some (Tag ''span'' [''value''] [] [NavigableString ''1,234''], [])
   \<and> get_text (Tag ''span'' [''value''] [] [NavigableString ''1,234'']) = ''1,234''
   \<and> PubMed_results_biomon_terms (serves page_with_count) pubmed_url
        (example_df\<lparr>rows := [(0, [Str ''7732-18-5'', Str ''Water''])]\<rparr>) ''Chemical'' None 0
        fresh_world
      = Inr ([EContents [NavigableString ''1,234'']],
             \<lparr>requested = [''https://pubmed.ncbi.nlm.nih.gov/?term=(\"Water\")''], slept = 0\<rparr>)
   \<and> EContents [NavigableString ''1,234'']
      \<noteq> EStr (get_text (Tag ''span'' [''value''] [] [NavigableString ''1,234'']))
   \<and> PubMed_results_biomon_terms (serves page_with_count) pubmed_url
        (example_df\<lparr>rows := [(2, [Str ''123-45-6'', Str ''Fictional Compound''])]\<rparr>)
        ''Chemical'' None 0 fresh_world
      = Inl IndexError"
  by code_simp

text \<open>
  Claim C8, amended.  In a run on a table with the default index that returns, when the
  request of row \<open>i\<close> (not skipped) got a response, the entry at \<open>i\<close> is the \<open>contents\<close>
  of the first \<open>span\<close> of class \<open>value\<close> on the page, that is the list of its child
  nodes; when the marker is absent or parsing fails, so that looking the span up finds
  nothing and reading its \<open>contents\<close> raises inside the inner \<open>try\<close>, the entry is
  \<open>NA\<close>.
\<close>

theorem recorded_entry:
  assumes "default_index df" and "k \<le> i" and "i < length (rows df)"
    and "PubMed_results_biomon_terms net search_url df NAME search_string (int k) w
           = Inr (res, w')"
    and "net (requested w' ! (length (requested w) + (i - k))) (length (requested w) + (i - k))
           = Returns response"
  shows "res ! i =
     (case find_first span_value (soup response) of
        Some (span, siblings) \<Rightarrow> EContents (contents span)
      | None \<Rightarrow> EStr ''NA'')"
proof -
  let ?f = "row_url search_url (columns df) NAME search_string"
  let ?n = "length (requested w)"
  from assms(2,3) have k: "k \<le> length (rows df)" by simp
  from PubMed_returns [OF assms(1) k assms(4)] obtain es us where
    l: "lookups net ?f ?n (drop k (rows df)) = Inr (es, us)"
    and res: "res = replicate k (EStr ''NA'') @ es"
    and w': "w' = w\<lparr>requested := requested w @ us\<rparr>"
    by blast
  from assms(2,3) have j: "i - k < length (drop k (rows df))" by simp
  have u: "requested w' ! (?n + (i - k)) = us ! (i - k)"
    by (simp add: w' nth_append)
  from lookups_nth [OF l j] have "entry_of (net (us ! (i - k)) (?n + (i - k))) = Inr (es ! (i - k))"
    by simp
  with assms(5) u have "es ! (i - k) =
     (case find_first span_value (soup response) of
        Some (span, siblings) \<Rightarrow> EContents (contents span)
      | None \<Rightarrow> EStr ''NA'')"
    by (simp add: entry_of_def split: option.splits prod.splits)
  moreover have "res ! i = es ! (i - k)"
    using assms(2) by (simp add: res nth_append)
  ultimately show ?thesis by simp
qed

theorem recorded_entry_witness:
  "default_index example_df
   \<and> PubMed_results_biomon_terms (serves page_with_count) pubmed_url example_df ''Chemical'' None 2
        fresh_world
      = Inr ([EStr ''NA'', EStr ''NA'',
              EContents [NavigableString ''1,234''], EContents [NavigableString ''1,234'']],
             \<lparr>requested = [''https://pubmed.ncbi.nlm.nih.gov/?term=(\"Fictional+Compound\")'',
                            ''https://pubmed.ncbi.nlm.nih.gov/?term=(\"Formaldehyde\")''],
               slept = 0\<rparr>)
   \<and> serves page_with_count ''https://pubmed.ncbi.nlm.nih.gov/?term=(\"Formaldehyde\")'' 1
      = Returns (Response None page_with_count)
   \<and> find_first span_value page_with_count
      = Some (Tag ''span'' [''value''] [] [NavigableString ''1,234''], [])
   \<and> [EStr ''NA'', EStr ''NA'',
       EContents [NavigableString ''1,234''], EContents [NavigableString ''1,234'']] ! 3
      = EContents (contents (Tag ''span'' [''value''] [] [NavigableString ''1,234'']))
   \<and> PubMed_results_biomon_terms (serves page_with_status) pubmed_url example_df ''Chemical'' None 2
        fresh_world
      = Inr ([EStr ''NA'', EStr ''NA'', EStr ''NA'', EStr ''NA''],
             \<lparr>requested = [''https://pubmed.ncbi.nlm.nih.gov/?term=(\"Fictional+Compound\")'',
                            ''https://pubmed.ncbi.nlm.nih.gov/?term=(\"Formaldehyde\")''],
               slept = 0\<rparr>)
   \<and> find_first span_value page_with_status = None"
proof -
  let ?w' = "\<lparr>requested = [''https://pubmed.ncbi.nlm.nih.gov/?term=(\"Fictional+Compound\")'',
                            ''https://pubmed.ncbi.nlm.nih.gov/?term=(\"Formaldehyde\")''],
               slept = 0\<rparr>"
  let ?c = "EContents [NavigableString ''1,234'']"
  have a: "default_index example_df"
    by (simp add: default_index_def example_df_def upt_rec)
  have b: "(2::nat) \<le> 3" by simp
  have c: "3 < length (rows example_df)" by (simp add: example_df_def)
  have d: "PubMed_results_biomon_terms (serves page_with_count) pubmed_url example_df ''Chemical'' None
        (int 2) fresh_world
      = Inr ([EStr ''NA'', EStr ''NA'', ?c, ?c], ?w')"
    by code_simp
  have e: "serves page_with_count
        (requested ?w' ! (length (requested fresh_world) + (3 - 2)))
        (length (requested fresh_world) + (3 - 2))
      = Returns (Response None page_with_count)"
    by (simp add: serves_def)
  have f: "find_first span_value page_with_count
      = Some (Tag ''span'' [''value''] [] [NavigableString ''1,234''], [])"
    by code_simp
  have g: "serves page_with_count ''https://pubmed.ncbi.nlm.nih.gov/?term=(\"Formaldehyde\")'' 1
      = Returns (Response None page_with_count)"
    by (simp add: serves_def)
  from recorded_entry [OF a b c d e]
  have h: "[EStr ''NA'', EStr ''NA'', ?c, ?c] ! 3
      = EContents (contents (Tag ''span'' [''value''] [] [NavigableString ''1,234'']))"
    by (simp add: f)
  have d': "PubMed_results_biomon_terms (serves page_with_status) pubmed_url example_df ''Chemical''
        None (int 2) fresh_world
      = Inr ([EStr ''NA'', EStr ''NA'', EStr ''NA'', EStr ''NA''], ?w')"
    by code_simp
  have e': "serves page_with_status
        (requested ?w' ! (length (requested fresh_world) + (3 - 2)))
        (length (requested fresh_world) + (3 - 2))
      = Returns (Response None page_with_status)"
    by (simp add: serves_def)
  have f': "find_first span_value page_with_status = None" by code_simp
  from recorded_entry [OF a b c d' e']
  have "[EStr ''NA'', EStr ''NA'', EStr ''NA'', EStr ''NA''] ! 3 = EStr ''NA''"
    by (simp add: f')
  from a d g f h d' f' show ?thesis by simp
qed

end
